theory Spec2Isabelle
  imports Main
begin

section \<open>Python values, exceptions and string operations\<close>

text \<open>
  The values that travel through the bus as service names, versions, entities and packet
  fields.  A version is an integer or a string in the callers of the bus, so both are kept
  apart: Python's \<open>1 == '1'\<close> is false.
\<close>

datatype pyval = PNone | PInt int | PStr string

datatype error =
    KeyError | AttributeError | TypeError | ValueError | IndexError
  | ClientNotFoundError | ClientDisconnected | ConnectionFailed | RetriesExhausted

fun truthy :: "pyval \<Rightarrow> bool" where
  "truthy PNone = False"
| "truthy (PInt i) = (i \<noteq> 0)"
| "truthy (PStr s) = (s \<noteq> [])"

definition digit_char :: "nat \<Rightarrow> char" where
  "digit_char d = ''0123456789'' ! d"

fun str_nat :: "nat \<Rightarrow> string" where
  "str_nat n = (if n < 10 then [digit_char n] else str_nat (n div 10) @ [digit_char (n mod 10)])"

declare str_nat.simps [simp del]

definition str_int :: "int \<Rightarrow> string" where
  "str_int i = (if i < 0 then CHR ''-'' # str_nat (nat (- i)) else str_nat (nat i))"

text \<open>Python's \<open>str(v)\<close>.\<close>

fun py_str :: "pyval \<Rightarrow> string" where
  "py_str PNone = ''None''"
| "py_str (PInt i) = str_int i"
| "py_str (PStr s) = s"

text \<open>Python's \<open>sep.join(parts)\<close>.\<close>

fun join :: "string \<Rightarrow> string list \<Rightarrow> string" where
  "join sep [] = []"
| "join sep [x] = x"
| "join sep (x # y # ys) = x @ sep @ join sep (y # ys)"

text \<open>Python's \<open>s.split(c)\<close> for a one-character separator: \<open>''.split('/') == ['']\<close>.\<close>

fun split :: "char \<Rightarrow> string \<Rightarrow> string list" where
  "split c [] = [[]]"
| "split c (x # xs) =
     (if x = c then [] # split c xs
      else (case split c xs of [] \<Rightarrow> [[x]] | w # ws \<Rightarrow> (x # w) # ws))"

section \<open>The pub/sub bus\<close>

subsection \<open>Topic keys\<close>

text \<open>
  \<open>PubSubBus._get_pubsub_key(service, version, endpoint, node_id=None)\<close>.  The optional
  argument is \<open>None\<close> when it is left out; \<open>if node_id:\<close> is Python truthiness, so the
  empty string takes the three-segment branch too.
\<close>

definition get_pubsub_key :: "string \<Rightarrow> pyval \<Rightarrow> string \<Rightarrow> string option \<Rightarrow> string" where
  "get_pubsub_key service version endpoint node_id =
     (case node_id of
        Some n \<Rightarrow>
          (if n \<noteq> [] then join ''/'' [service, py_str version, endpoint, n]
           else join ''/'' [service, py_str version, endpoint])
      | None \<Rightarrow> join ''/'' [service, py_str version, endpoint])"

text \<open>
  The first lines of \<open>PubSubBus.subscription_handler\<close>: the topic is split at every slash;
  more than three elements are unpacked into four names, anything else into three.  An
  unpacking of the wrong length raises ValueError.
\<close>

definition parse_topic :: "string \<Rightarrow> error + (string \<times> string \<times> string \<times> string option)" where
  "parse_topic topic =
     (let elements = split CHR ''/'' topic in
      if length elements > 3 then
        (case elements of
           [service, version, endpoint, node_id] \<Rightarrow> Inr (service, version, endpoint, Some node_id)
         | _ \<Rightarrow> Inl ValueError)
      else
        (case elements of
           [service, version, endpoint] \<Rightarrow> Inr (service, version, endpoint, None)
         | _ \<Rightarrow> Inl ValueError))"

subsection \<open>Publishing\<close>

text \<open>
  One entry of the list that \<open>registry_client.get_subscribers\<close> returns: a dictionary with
  the keys \<open>name\<close>, \<open>version\<close>, \<open>host\<close>, \<open>port\<close>, \<open>node_id\<close> and \<open>strategy\<close>.
\<close>

record subscriber =
  s_name :: string
  s_version :: pyval
  s_host :: string
  s_port :: nat
  s_node_id :: string
  s_strategy :: string

text \<open>The tuple \<open>(host, port, node_id, strategy)\<close> that \<open>xpublish\<close> stores per subscriber.\<close>

type_synonym member = "string \<times> nat \<times> string \<times> string"

text \<open>
  \<open>strategies[key].append(v)\<close> on a \<open>defaultdict(list)\<close>: the dictionary is an association
  list in insertion order, a new key is added at the end with a one-element list.
\<close>

fun dd_append :: "'k \<Rightarrow> 'v \<Rightarrow> ('k \<times> 'v list) list \<Rightarrow> ('k \<times> 'v list) list" where
  "dd_append k v [] = [(k, [v])]"
| "dd_append k v ((k', vs) # rest) =
     (if k' = k then (k', vs @ [v]) # rest else (k', vs) # dd_append k v rest)"

text \<open>The first loop of \<open>xpublish\<close>.\<close>

fun group_subscribers ::
  "subscriber list \<Rightarrow> ((string \<times> pyval) \<times> member list) list \<Rightarrow> ((string \<times> pyval) \<times> member list) list"
where
  "group_subscribers [] strategies = strategies"
| "group_subscribers (subscriber # subscribers) strategies =
     group_subscribers subscribers
       (dd_append (s_name subscriber, s_version subscriber)
          (s_host subscriber, s_port subscriber, s_node_id subscriber, s_strategy subscriber)
          strategies)"

text \<open>
  \<open>random.choice(value)\<close>: the generator is a sequence of draws \<open>rnd\<close> and the number \<open>k\<close>
  of draws made so far; the chosen index is the draw reduced modulo the length.  On an empty
  sequence \<open>random.choice\<close> raises IndexError.
\<close>

definition random_choice :: "(nat \<Rightarrow> nat) \<Rightarrow> nat \<Rightarrow> 'a list \<Rightarrow> error + 'a" where
  "random_choice rnd k xs = (if xs = [] then Inl IndexError else Inr (xs ! (rnd k mod length xs)))"

text \<open>
  The second loop of \<open>xpublish\<close>, over \<open>strategies.items()\<close>.  The result is the list of
  \<open>(topic, data)\<close> pairs handed to \<open>pubsub_handler.publish\<close>, and the exception that ended
  the loop, if any.  \<open>value[0]\<close> raises IndexError on an empty list.
\<close>

fun select_and_publish ::
  "(nat \<Rightarrow> nat) \<Rightarrow> nat \<Rightarrow> string \<Rightarrow> pyval \<Rightarrow> string \<Rightarrow> string \<Rightarrow>
   ((string \<times> pyval) \<times> member list) list \<Rightarrow> (string \<times> string) list \<times> error option"
where
  "select_and_publish rnd k service version endpoint data [] = ([], None)"
| "select_and_publish rnd k service version endpoint data ((key, value) # rest) =
     (case value of
        [] \<Rightarrow> ([], Some IndexError)
      | (h, p, n, strategy) # _ \<Rightarrow>
          if strategy = ''LEADER'' then
            (let (pubs, err) = select_and_publish rnd k service version endpoint data rest
             in ((get_pubsub_key service version endpoint (Some n), data) # pubs, err))
          else
            (case random_choice rnd k value of
               Inl e \<Rightarrow> ([], Some e)
             | Inr (h', p', n', strategy') \<Rightarrow>
                 (let (pubs, err) = select_and_publish rnd (Suc k) service version endpoint data rest
                  in ((get_pubsub_key service version endpoint (Some n'), data) # pubs, err))))"

text \<open>
  \<open>PubSubBus.xpublish\<close>.  \<open>get_subscribers\<close> is the registry's answer, \<open>dumps\<close> stands for
  \<open>json.dumps(payload, cls=VykedEncoder)\<close>.
\<close>

definition xpublish ::
  "(string \<Rightarrow> pyval \<Rightarrow> string \<Rightarrow> subscriber list) \<Rightarrow> ('p \<Rightarrow> string) \<Rightarrow> (nat \<Rightarrow> nat) \<Rightarrow>
   string \<Rightarrow> pyval \<Rightarrow> string \<Rightarrow> 'p \<Rightarrow> (string \<times> string) list \<times> error option"
where
  "xpublish get_subscribers dumps rnd service version endpoint payload =
     (let subscribers = get_subscribers service version endpoint;
          strategies = group_subscribers subscribers []
      in select_and_publish rnd 0 service version endpoint (dumps payload) strategies)"

text \<open>
  \<open>PubSubBus.publish\<close>: the broadcast publish is scheduled first, then the task that runs
  \<open>xpublish\<close>.
\<close>

definition publish ::
  "(string \<Rightarrow> pyval \<Rightarrow> string \<Rightarrow> subscriber list) \<Rightarrow> ('p \<Rightarrow> string) \<Rightarrow> (nat \<Rightarrow> nat) \<Rightarrow>
   string \<Rightarrow> pyval \<Rightarrow> string \<Rightarrow> 'p \<Rightarrow> (string \<times> string) list \<times> error option"
where
  "publish get_subscribers dumps rnd service version endpoint payload =
     (let endpoint_key = get_pubsub_key service version endpoint None;
          (pubs, err) = xpublish get_subscribers dumps rnd service version endpoint payload
      in ((endpoint_key, dumps payload) # pubs, err))"

subsection \<open>Receiving\<close>

text \<open>
  A service client as the bus sees it: its \<open>name\<close>, its \<open>version\<close> and the names of its
  attributes, which is all that \<open>getattr(client, endpoint)\<close> needs.
\<close>

record service_client =
  c_name :: string
  c_version :: pyval
  c_attrs :: "string list"

text \<open>
  \<open>PubSubBus.subscription_handler(endpoint, payload)\<close>.  \<open>clients\<close> is \<open>self._clients\<close>,
  which is \<open>None\<close> until \<open>register_for_subscription\<close> has run; \<open>loads\<close> stands for
  \<open>json.loads\<close>.  The result is the call that is scheduled: the client, the name of the
  method and its keyword arguments.
\<close>

definition subscription_handler ::
  "service_client list option \<Rightarrow> (string \<Rightarrow> error + 'kw) \<Rightarrow> string \<Rightarrow> string \<Rightarrow>
   error + (service_client \<times> string \<times> 'kw)"
where
  "subscription_handler clients loads topic payload =
     (case parse_topic topic of
        Inl e \<Rightarrow> Inl e
      | Inr (service, version, endpoint, node_id) \<Rightarrow>
          (case clients of
             None \<Rightarrow> Inl TypeError
           | Some cs \<Rightarrow>
               (case filter (\<lambda>sc. c_name sc = service \<and> c_version sc = PStr version) cs of
                  [] \<Rightarrow> Inl IndexError
                | client # _ \<Rightarrow>
                    if endpoint \<in> set (c_attrs client) then
                      (case loads payload of
                         Inl e \<Rightarrow> Inl e
                       | Inr kw \<Rightarrow> Inr (client, endpoint, kw))
                    else Inl AttributeError)))"

section \<open>The TCP bus\<close>

subsection \<open>State\<close>

text \<open>A packet is a dictionary from field names to values.\<close>

type_synonym packet = "string \<rightharpoonup> pyval"

text \<open>The tuple \<open>(host, port, node_id, service_type)\<close> of the registry.\<close>

type_synonym address = "string \<times> nat \<times> string \<times> string"

definition TCP :: string where
  "TCP = ''tcp''"

text \<open>
  The registry client, of which the bus uses \<open>resolve\<close>, \<open>get_all_addresses\<close> (called with
  \<open>sc.properties\<close>, the name and version of a service client) and \<open>get_for_node\<close>.
\<close>

record registry =
  resolve :: "pyval \<Rightarrow> pyval \<Rightarrow> pyval \<Rightarrow> string \<Rightarrow> address option"
  get_all_addresses :: "string \<Rightarrow> pyval \<Rightarrow> address list"
  get_for_node :: "string \<Rightarrow> address option"

text \<open>
  A client protocol: what \<open>is_connected()\<close> answers and the packets handed to \<open>send\<close>.
\<close>

record protocol =
  is_connected :: bool
  sent :: "packet list"

text \<open>
  The hosted service of \<open>hosts['tcp_host']\<close>: its \<open>is_for_me\<close> and its attributes by name,
  each with its \<open>is_api\<close> marker when it has one.
\<close>

record service_host =
  is_for_me :: "pyval \<Rightarrow> pyval \<Rightarrow> bool"
  h_attrs :: "string \<rightharpoonup> bool option"

text \<open>
  A task started by \<open>_connect_to_client\<close>: the arguments of \<open>create_connection\<close>, and
  whether the done-callback was attached to its future.
\<close>

record attempt =
  a_host :: string
  a_port :: nat
  a_node_id :: string
  a_service_type :: string
  a_client :: service_client
  a_callback :: bool

datatype log_entry = LogInfo string | LogWarn string | LogError string

record tcp_bus =
  registry_client :: registry
  client_protocols :: "string \<rightharpoonup> protocol"
  pingers :: "string \<rightharpoonup> unit"
  node_clients :: "string \<rightharpoonup> service_client"
  service_clients :: "service_client list"
  tcp_host :: "service_host option"
  host_id :: string
  registered :: bool
  logger :: "log_entry list"
  launched :: "attempt list"

text \<open>
  The attributes of a \<open>TCPBus\<close> object: those set in \<open>__init__\<close> and the methods of the
  class.  The names that \<open>object\<close> adds begin and end with two underscores.
\<close>

definition TCPBus_attributes :: "string list" where
  "TCPBus_attributes =
     [''_registry_client'', ''_client_protocols'', ''_pingers'', ''_node_clients'',
      ''_service_clients'', ''hosts'', ''_host_id'', ''_ronin'', ''_registered'', ''_logger'',
      ''_create_service_clients'', ''connect'', ''register'', ''registration_complete'',
      ''new_instance'', ''send'', ''_request_sender'', ''_connect_to_client'',
      ''_service_client_connection_callback'', ''_create_json_service_name'', ''_handle_ping'',
      ''_handle_pong'', ''_get_node_id_for_packet'', ''handle_ping_timeout'', ''receive'',
      ''_request_receiver'', ''handle_connected'']"

text \<open>\<open>getattr(self, name)\<close> on the bus.\<close>

definition getattr_TCPBus :: "string \<Rightarrow> error + string" where
  "getattr_TCPBus name = (if name \<in> set TCPBus_attributes then Inr name else Inl AttributeError)"

subsection \<open>Sending a request\<close>

text \<open>\<open>TCPBus._get_node_id_for_packet\<close>; a missing key of the packet raises KeyError.\<close>

definition get_node_id_for_packet :: "tcp_bus \<Rightarrow> packet \<Rightarrow> error + string option" where
  "get_node_id_for_packet bus packet =
     (case packet ''name'' of
        None \<Rightarrow> Inl KeyError
      | Some service \<Rightarrow>
          (case packet ''version'' of
             None \<Rightarrow> Inl KeyError
           | Some version \<Rightarrow>
               (case packet ''entity'' of
                  None \<Rightarrow> Inl KeyError
                | Some entity \<Rightarrow>
                    (case resolve (registry_client bus) service version entity TCP of
                       None \<Rightarrow> Inr None
                     | Some (host, port, node_id, service_type) \<Rightarrow> Inr (Some node_id)))))"

text \<open>
  The body of \<open>TCPBus._request_sender\<close>, one attempt.  \<open>_client_protocols.get(node_id)\<close> is
  \<open>None\<close> for a node id that is \<open>None\<close> or not in the table; \<open>node_id and client_protocol\<close>
  is Python truthiness, false for \<open>None\<close> and for the empty string, true for a protocol
  object.  The packet handed to \<open>client_protocol.send\<close> carries the new \<open>to\<close>.
\<close>

definition request_sender_body :: "tcp_bus \<Rightarrow> packet \<Rightarrow> (error + bool) \<times> tcp_bus" where
  "request_sender_body bus packet =
     (case get_node_id_for_packet bus packet of
        Inl e \<Rightarrow> (Inl e, bus)
      | Inr node_id \<Rightarrow>
          (let client_protocol = (case node_id of None \<Rightarrow> None | Some n \<Rightarrow> client_protocols bus n) in
           case (node_id, client_protocol) of
             (Some n, Some p) \<Rightarrow>
               if n \<noteq> [] then
                 (if is_connected p then
                    (Inr True,
                     bus\<lparr>client_protocols :=
                       (client_protocols bus)(n \<mapsto> p\<lparr>sent := sent p @ [packet(''to'' \<mapsto> PStr n)]\<rparr>)\<rparr>)
                  else
                    (Inl ClientDisconnected,
                     bus\<lparr>logger := logger bus @ [LogError ''Client protocol is not connected'']\<rparr>))
               else
                 (Inl ClientNotFoundError,
                  bus\<lparr>logger := logger bus @ [LogError ''Client Not found'']\<rparr>)
           | _ \<Rightarrow>
               (Inl ClientNotFoundError,
                bus\<lparr>logger := logger bus @ [LogError ''Client Not found'']\<rparr>)))"

text \<open>
  Modelled from the spec: the decorator \<open>retry\<close> of the package \<open>retrial\<close>, which the bus
  imports and whose code is not part of the sources.  The spec says: the whole step is
  retried up to \<open>max_attempts\<close> attempts, with an exponentially increasing delay (the
  multiplier between attempts), whenever it returns an outcome for which
  \<open>should_retry_for_result\<close> holds or raises an exception for which
  \<open>should_retry_for_exception\<close> holds; after exhausting the attempts, the failure is
  surfaced to the caller as a terminal failure.

  \<open>left\<close> is the number of attempts that remain, \<open>delay\<close> the next delay (its first value
  is left open by the spec), \<open>made\<close> the number of attempts made so far and \<open>between\<close> what
  the other tasks do to the state while the delay after attempt \<open>made\<close> passes.  The result
  is the outcome, the outcomes of the attempts made, the delays slept and the final state.
\<close>

fun retry ::
  "nat \<Rightarrow> nat \<Rightarrow> nat \<Rightarrow> ('r \<Rightarrow> bool) \<Rightarrow> (error \<Rightarrow> bool) \<Rightarrow> ('s \<Rightarrow> (error + 'r) \<times> 's) \<Rightarrow>
   (nat \<Rightarrow> 's \<Rightarrow> 's) \<Rightarrow> nat \<Rightarrow> 's \<Rightarrow> (error + 'r) \<times> (error + 'r) list \<times> nat list \<times> 's"
where
  "retry 0 multiplier delay should_retry_for_result should_retry_for_exception body between made s =
     (Inl RetriesExhausted, [], [], s)"
| "retry (Suc left) multiplier delay should_retry_for_result should_retry_for_exception body between made s =
     (let (res, s') = body s;
          again = (case res of Inl e \<Rightarrow> should_retry_for_exception e
                             | Inr r \<Rightarrow> should_retry_for_result r)
      in if again then
           (if left = 0 then (Inl RetriesExhausted, [res], [], s')
            else
              (let (res', tries, delays, s'') =
                     retry left multiplier (delay * multiplier) should_retry_for_result
                       should_retry_for_exception body between (Suc made) (between (Suc made) s')
               in (res', res # tries, delay # delays, s'')))
         else (res, [res], [], s'))"

text \<open>
  \<open>TCPBus._request_sender\<close> as decorated: \<open>should_retry_for_result=lambda x: not x\<close>,
  \<open>should_retry_for_exception=lambda x: True\<close>, \<open>max_attempts=5\<close>, \<open>multiplier=2\<close>.
\<close>

definition request_sender ::
  "nat \<Rightarrow> (nat \<Rightarrow> tcp_bus \<Rightarrow> tcp_bus) \<Rightarrow> tcp_bus \<Rightarrow> packet \<Rightarrow>
   (error + bool) \<times> (error + bool) list \<times> nat list \<times> tcp_bus"
where
  "request_sender delay between bus packet =
     retry 5 2 delay (\<lambda>x. \<not> x) (\<lambda>x. True) (\<lambda>b. request_sender_body b packet) between 0 bus"

text \<open>
  \<open>TCPBus.send\<close>.  The sender is found by name; \<open>'_' + packet['type']\<close> raises TypeError
  when the type is not a string, and an attribute of the bus that is not the sender cannot
  be called with a packet.  The result is that of the task which runs the sender.
\<close>

definition send ::
  "nat \<Rightarrow> (nat \<Rightarrow> tcp_bus \<Rightarrow> tcp_bus) \<Rightarrow> tcp_bus \<Rightarrow> packet \<Rightarrow>
   error + ((error + bool) \<times> (error + bool) list \<times> nat list \<times> tcp_bus)"
where
  "send delay between bus packet0 =
     (let packet = packet0(''from'' \<mapsto> PStr (host_id bus)) in
      case packet ''type'' of
        None \<Rightarrow> Inl KeyError
      | Some (PStr t) \<Rightarrow>
          (case getattr_TCPBus (''_'' @ t @ ''_sender'') of
             Inl e \<Rightarrow> Inl e
           | Inr func \<Rightarrow>
               if func = ''_request_sender'' then Inr (request_sender delay between bus packet)
               else Inl TypeError)
      | Some _ \<Rightarrow> Inl TypeError)"

subsection \<open>Connections\<close>

text \<open>
  \<open>TCPBus._connect_to_client(host, node_id, port, service_type, service_client)\<close>.  All
  five parameters are required: \<open>None\<close> for the last one stands for a call that passes
  four arguments only, which Python rejects with TypeError before the body runs.  In the
  body the connection task is started first; \<open>self._node_clients[node_id]\<close>, evaluated for
  the callback, raises KeyError for an unknown node id.
\<close>

definition connect_to_client ::
  "tcp_bus \<Rightarrow> string \<Rightarrow> string \<Rightarrow> nat \<Rightarrow> string \<Rightarrow> service_client option \<Rightarrow> error option \<times> tcp_bus"
where
  "connect_to_client bus host node_id port service_type service_client =
     (case service_client of
        None \<Rightarrow> (Some TypeError, bus)
      | Some sc \<Rightarrow>
          (let task = \<lparr>a_host = host, a_port = port, a_node_id = node_id,
                       a_service_type = service_type, a_client = sc, a_callback = False\<rparr>
           in case node_clients bus node_id of
                None \<Rightarrow> (Some KeyError, bus\<lparr>launched := launched bus @ [task]\<rparr>)
              | Some c \<Rightarrow>
                  (None, bus\<lparr>launched := launched bus @ [task\<lparr>a_callback := True\<rparr>]\<rparr>)))"

text \<open>The inner loop of \<open>TCPBus._create_service_clients\<close>, over the addresses of one client.\<close>

fun connect_addresses :: "tcp_bus \<Rightarrow> service_client \<Rightarrow> address list \<Rightarrow> error option \<times> tcp_bus" where
  "connect_addresses bus sc [] = (None, bus)"
| "connect_addresses bus sc ((host, port, node_id, service_type) # rest) =
     (if service_type = ''tcp'' then
        (case connect_to_client (bus\<lparr>node_clients := (node_clients bus)(node_id \<mapsto> sc)\<rparr>)
                host node_id port service_type (Some sc) of
           (Some e, bus') \<Rightarrow> (Some e, bus')
         | (None, bus') \<Rightarrow> connect_addresses bus' sc rest)
      else connect_addresses bus sc rest)"

text \<open>The outer loop, over \<open>self._service_clients\<close>.\<close>

fun connect_clients :: "tcp_bus \<Rightarrow> service_client list \<Rightarrow> error option \<times> tcp_bus" where
  "connect_clients bus [] = (None, bus)"
| "connect_clients bus (sc # rest) =
     (case connect_addresses bus sc
             (get_all_addresses (registry_client bus) (c_name sc) (c_version sc)) of
        (Some e, bus') \<Rightarrow> (Some e, bus')
      | (None, bus') \<Rightarrow> connect_clients bus' rest)"

text \<open>
  \<open>TCPBus._create_service_clients\<close>.  It is a plain function: both loops run to their end
  before any of the started connection tasks can complete, and the futures are the tasks
  added to \<open>launched\<close>.  The future of \<open>asyncio.gather\<close> that it returns is dropped by its
  only caller, \<open>registration_complete\<close>.
\<close>

definition create_service_clients :: "tcp_bus \<Rightarrow> error option \<times> tcp_bus" where
  "create_service_clients bus = connect_clients bus (service_clients bus)"

text \<open>How the future of a connection task ends: with a protocol, or with an exception.\<close>

datatype outcome = Connected protocol | Failed

text \<open>
  \<open>TCPBus._service_client_connection_callback\<close>: \<open>future.result()\<close> raises the exception
  of a failed future.
\<close>

definition service_client_connection_callback ::
  "tcp_bus \<Rightarrow> string \<Rightarrow> outcome \<Rightarrow> error option \<times> tcp_bus"
where
  "service_client_connection_callback bus node_id future =
     (case future of
        Failed \<Rightarrow> (Some ConnectionFailed, bus)
      | Connected protocol \<Rightarrow>
          (None, bus\<lparr>client_protocols := (client_protocols bus)(node_id \<mapsto> protocol)\<rparr>))"

text \<open>
  The event loop runs the done-callback of each task as it completes, in the order of
  completion; an exception raised by a callback is reported by the loop and goes no further.
\<close>

fun run_done_callbacks :: "tcp_bus \<Rightarrow> (attempt \<times> outcome) list \<Rightarrow> tcp_bus" where
  "run_done_callbacks bus [] = bus"
| "run_done_callbacks bus ((task, future) # rest) =
     (if a_callback task then
        run_done_callbacks (snd (service_client_connection_callback bus (a_node_id task) future)) rest
      else run_done_callbacks bus rest)"

text \<open>
  \<open>TCPBus.handle_ping_timeout\<close>.  The call of \<open>_connect_to_client\<close> passes
  \<open>host, _node_id, port, _type\<close> and no service client.
\<close>

definition handle_ping_timeout :: "tcp_bus \<Rightarrow> string \<Rightarrow> error option \<times> tcp_bus" where
  "handle_ping_timeout bus node_id =
     (let bus1 = bus\<lparr>logger := logger bus @ [LogInfo ''Service client connection timed out'']\<rparr>;
          bus2 = bus1\<lparr>pingers := (pingers bus1)(node_id := None)\<rparr>;
          service_props = get_for_node (registry_client bus2) node_id;
          bus3 = bus2\<lparr>logger := logger bus2 @ [LogInfo ''service client props'']\<rparr>
      in case service_props of
           None \<Rightarrow> (None, bus3)
         | Some (host, port, node_id', type') \<Rightarrow>
             connect_to_client bus3 host node_id' port type' None)"

subsection \<open>Routing inbound packets\<close>

text \<open>What the router does with a packet, when it does not raise.\<close>

datatype action =
    SendPong pyval
  | PongReceived string pyval
  | Invoke string pyval pyval pyval
  | Printed
  | Dropped

text \<open>
  \<open>TCPBus._request_receiver\<close>: the handler is an attribute of the hosted service, found by
  the name in \<open>packet['endpoint']\<close>; it is started with the sender, the entity and the
  payload when it carries a true \<open>is_api\<close>.  The payload, a dictionary of keyword
  arguments in the callers, is passed on as an opaque value.
\<close>

definition request_receiver :: "service_host \<Rightarrow> packet \<Rightarrow> error + action" where
  "request_receiver host packet =
     (case packet ''endpoint'' of
        None \<Rightarrow> Inl KeyError
      | Some (PStr endpoint) \<Rightarrow>
          (case h_attrs host endpoint of
             None \<Rightarrow> Inl AttributeError
           | Some None \<Rightarrow> Inl AttributeError
           | Some (Some is_api) \<Rightarrow>
               if is_api then
                 (case packet ''from'' of
                    None \<Rightarrow> Inl KeyError
                  | Some from_node_id \<Rightarrow>
                      (case packet ''entity'' of
                         None \<Rightarrow> Inl KeyError
                       | Some entity \<Rightarrow>
                           (case packet ''payload'' of
                              None \<Rightarrow> Inl KeyError
                            | Some payload \<Rightarrow> Inr (Invoke endpoint from_node_id entity payload))))
               else Inr Printed)
      | Some _ \<Rightarrow> Inl TypeError)"

text \<open>
  \<open>TCPBus.receive\<close>.  \<open>_handle_ping\<close> answers with a pong for \<open>packet['node_id']\<close>;
  \<open>_handle_pong\<close> looks the pinger up in \<open>self._pingers\<close>, whose keys are node ids.  For
  every other type the hosted service decides whether the packet is for it, and the
  receiver is found by name among the attributes of the bus.
\<close>

definition receive :: "tcp_bus \<Rightarrow> packet \<Rightarrow> (error + action) \<times> tcp_bus" where
  "receive bus packet =
     (case packet ''type'' of
        None \<Rightarrow> (Inl KeyError, bus)
      | Some ty \<Rightarrow>
          if ty = PStr ''ping'' then
            (case packet ''node_id'' of
               None \<Rightarrow> (Inl KeyError, bus)
             | Some n \<Rightarrow> (Inr (SendPong n), bus))
          else if ty = PStr ''pong'' then
            (case packet ''node_id'' of
               None \<Rightarrow> (Inl KeyError, bus)
             | Some n \<Rightarrow>
                 (case packet ''count'' of
                    None \<Rightarrow> (Inl KeyError, bus)
                  | Some count \<Rightarrow>
                      (case n of
                         PStr node_id \<Rightarrow>
                           (case pingers bus node_id of
                              None \<Rightarrow> (Inl KeyError, bus)
                            | Some pinger \<Rightarrow> (Inr (PongReceived node_id count), bus))
                       | _ \<Rightarrow> (Inl KeyError, bus))))
          else
            (case tcp_host bus of
               None \<Rightarrow> (Inl AttributeError, bus)
             | Some host \<Rightarrow>
                 (case packet ''name'' of
                    None \<Rightarrow> (Inl KeyError, bus)
                  | Some name \<Rightarrow>
                      (case packet ''version'' of
                         None \<Rightarrow> (Inl KeyError, bus)
                       | Some version \<Rightarrow>
                           if is_for_me host name version then
                             (case ty of
                                PStr t \<Rightarrow>
                                  (case getattr_TCPBus (''_'' @ t @ ''_receiver'') of
                                     Inl e \<Rightarrow> (Inl e, bus)
                                   | Inr func \<Rightarrow>
                                       if func = ''_request_receiver''
                                       then (request_receiver host packet, bus)
                                       else (Inl TypeError, bus))
                              | _ \<Rightarrow> (Inl TypeError, bus))
                           else
                             (Inr Dropped,
                              bus\<lparr>logger := logger bus @ [LogWarn ''wrongly routed packet: '']\<rparr>)))))"

section \<open>Concrete inputs\<close>



text \<open>A client of \<open>serviceA\<close>, a registry that knows three replicas of it, and a bus.\<close>

definition clientA :: service_client where
  "clientA = \<lparr>c_name = ''serviceA'', c_version = PStr ''1'', c_attrs = [''onEvent'']\<rparr>"

definition registry0 :: registry where
  "registry0 =
     \<lparr>resolve = (\<lambda>s v e t. if s = PStr ''serviceA'' \<and> t = ''tcp''
                           then Some (''10.0.0.2'', 4501, ''nodeY'', ''tcp'') else None),
      get_all_addresses = (\<lambda>s v. if s = ''serviceA''
                           then [(''10.0.0.2'', 4501, ''nodeY'', ''tcp''),
                                 (''10.0.0.2'', 8080, ''nodeH'', ''http''),
                                 (''10.0.0.3'', 4501, ''nodeZ'', ''tcp'')]
                           else []),
      get_for_node = (\<lambda>n. None)\<rparr>"

definition protocol0 :: protocol where
  "protocol0 = \<lparr>is_connected = True, sent = []\<rparr>"

definition host0 :: service_host where
  "host0 = \<lparr>is_for_me = (\<lambda>n v. n = PStr ''serviceL'' \<and> v = PInt 1), h_attrs = Map.empty\<rparr>"

definition bus0 :: tcp_bus where
  "bus0 = \<lparr>registry_client = registry0, client_protocols = Map.empty, pingers = Map.empty,
           node_clients = Map.empty, service_clients = [clientA], tcp_host = Some host0,
           host_id = ''nodeL'', registered = False, logger = [], launched = []\<rparr>"

definition packet0 :: packet where
  "packet0 = [''type'' \<mapsto> PStr ''request'', ''name'' \<mapsto> PStr ''serviceA'',
              ''version'' \<mapsto> PInt 1, ''entity'' \<mapsto> PStr ''e1'', ''endpoint'' \<mapsto> PStr ''get'',
              ''payload'' \<mapsto> PNone]"

text \<open>An attempt has failed for the retry when it raised or returned a result to retry for.\<close>

definition failed :: "('r \<Rightarrow> bool) \<Rightarrow> error + 'r \<Rightarrow> bool" where
  "failed srr r = (case r of Inl e \<Rightarrow> True | Inr x \<Rightarrow> srr x)"

text \<open>
  The connection tasks that \<open>_create_service_clients\<close> is to start: one for each address
  of type tcp, in the order of the registry's list, each with its callback attached.
\<close>

definition tcp_tasks :: "service_client \<Rightarrow> address list \<Rightarrow> attempt list" where
  "tcp_tasks sc addrs =
     map (\<lambda>(host, port, node_id, service_type).
            \<lparr>a_host = host, a_port = port, a_node_id = node_id, a_service_type = service_type,
             a_client = sc, a_callback = True\<rparr>)
       (filter (\<lambda>(host, port, node_id, service_type). service_type = ''tcp'') addrs)"

definition all_tasks :: "registry \<Rightarrow> service_client list \<Rightarrow> attempt list" where
  "all_tasks reg scs =
     concat (map (\<lambda>sc. tcp_tasks sc (get_all_addresses reg (c_name sc) (c_version sc))) scs)"

text \<open>The tasks for the two tcp replicas that \<open>registry0\<close> lists for \<open>clientA\<close>.\<close>

definition taskY :: attempt where
  "taskY = \<lparr>a_host = ''10.0.0.2'', a_port = 4501, a_node_id = ''nodeY'', a_service_type = ''tcp'',
             a_client = clientA, a_callback = True\<rparr>"

definition taskZ :: attempt where
  "taskZ = \<lparr>a_host = ''10.0.0.3'', a_port = 4501, a_node_id = ''nodeZ'', a_service_type = ''tcp'',
             a_client = clientA, a_callback = True\<rparr>"

text \<open>
  A bus with a connection and a pinger for nodeY, first with a registry that does not know
  nodeY any more, then with one that does.
\<close>

definition bus1 :: tcp_bus where
  "bus1 = bus0\<lparr>client_protocols := [''nodeY'' \<mapsto> protocol0], pingers := [''nodeY'' \<mapsto> ()]\<rparr>"

definition bus2 :: tcp_bus where
  "bus2 = bus1\<lparr>registry_client := registry0\<lparr>get_for_node :=
            (\<lambda>n. if n = ''nodeY'' then Some (''10.0.0.2'', 4501, ''nodeY'', ''tcp'') else None)\<rparr>\<rparr>"

text \<open>
  The state on which attempt \<open>i\<close> of a retried step runs (counting from 0, after \<open>made\<close>
  earlier attempts): the first attempt runs on the given state, each later one on the
  state that the attempt before it left, after what the other tasks did during the delay.
\<close>

primrec attempt_state ::
  "('s \<Rightarrow> (error + 'r) \<times> 's) \<Rightarrow> (nat \<Rightarrow> 's \<Rightarrow> 's) \<Rightarrow> nat \<Rightarrow> 's \<Rightarrow> nat \<Rightarrow> 's"
where
  "attempt_state body between made s 0 = s"
| "attempt_state body between made s (Suc i) =
     between (made + Suc i) (snd (body (attempt_state body between made s i)))"

text \<open>The bus on which attempt \<open>i\<close> of the request-send step for a packet runs.\<close>

definition attempt_bus :: "(nat \<Rightarrow> tcp_bus \<Rightarrow> tcp_bus) \<Rightarrow> packet \<Rightarrow> tcp_bus \<Rightarrow> nat \<Rightarrow> tcp_bus" where
  "attempt_bus between packet bus i =
     attempt_state (\<lambda>b. request_sender_body b packet) between 0 bus i"

text \<open>Another task: the connection to nodeY is established during the second delay.\<close>

definition connectY :: "nat \<Rightarrow> tcp_bus \<Rightarrow> tcp_bus" where
  "connectY k b = (if k = 2 then b\<lparr>client_protocols := [''nodeY'' \<mapsto> protocol0]\<rparr> else b)"

section \<open>Strings\<close>

lemma split_no_sep: "c \<notin> set x \<Longrightarrow> split c x = [x]"
  by (induction x) auto

lemma split_append_sep: "c \<notin> set x \<Longrightarrow> split c (x @ c # rest) = x # split c rest"
  by (induction x) auto

lemma str_int_1: "str_int 1 = ''1''"
  by (simp add: str_int_def str_nat.simps digit_char_def)

lemma digit_char_not_slash: "d < 10 \<Longrightarrow> digit_char d \<noteq> CHR ''/''"
proof -
  assume "d < 10"
  then have "d \<in> {0, 1, 2, 3, 4, 5, 6, 7, 8, 9}" by auto
  then show ?thesis by (auto simp: digit_char_def)
qed

lemma str_nat_no_slash: "CHR ''/'' \<notin> set (str_nat n)"
proof (induction n rule: str_nat.induct)
  case (1 n)
  show ?case
  proof (cases "n < 10")
    case True
    then show ?thesis using digit_char_not_slash [of n] by (simp add: str_nat.simps)
  next
    case False
    have "n mod 10 < 10" by simp
    then have "digit_char (n mod 10) \<noteq> CHR ''/''" by (rule digit_char_not_slash)
    with False 1 show ?thesis by (subst str_nat.simps) auto
  qed
qed

text \<open>The string form of an integer version never contains a slash.\<close>

lemma str_int_no_slash: "CHR ''/'' \<notin> set (str_int i)"
  by (simp add: str_int_def str_nat_no_slash)

section \<open>Topics\<close>

text \<open>
  C9: building a key with \<open>_get_pubsub_key\<close> and splitting it as \<open>subscription_handler\<close>
  does gives back the parts, when the service, the string form of the version, the endpoint
  and the node id contain no slash: service, \<open>str(version)\<close> and endpoint for the
  three-segment key, and the node id as well for the four-segment key.  The version comes
  back as its string form.  (A node id that is \<open>None\<close> or empty gives the three-segment
  key.)
\<close>

theorem topic_roundtrip:
  assumes "CHR ''/'' \<notin> set service" and "CHR ''/'' \<notin> set (py_str version)"
    and "CHR ''/'' \<notin> set endpoint"
    and "case node_id of None \<Rightarrow> True | Some n \<Rightarrow> CHR ''/'' \<notin> set n"
  shows "parse_topic (get_pubsub_key service version endpoint node_id) =
           Inr (service, py_str version, endpoint, if node_id = Some [] then None else node_id)"
proof (cases node_id)
  case None
  with assms show ?thesis
    by (simp add: parse_topic_def get_pubsub_key_def split_append_sep split_no_sep)
next
  case (Some n)
  with assms show ?thesis
    by (simp add: parse_topic_def get_pubsub_key_def split_append_sep split_no_sep)
qed

theorem topic_roundtrip_witness:
  "CHR ''/'' \<notin> set ''serviceA'' \<and> CHR ''/'' \<notin> set (py_str (PInt 1)) \<and> CHR ''/'' \<notin> set ''onEvent''
   \<and> CHR ''/'' \<notin> set ''nodeY''
   \<and> parse_topic (get_pubsub_key ''serviceA'' (PInt 1) ''onEvent'' (Some ''nodeY'')) =
       Inr (''serviceA'', ''1'', ''onEvent'', Some ''nodeY'')
   \<and> parse_topic (get_pubsub_key ''serviceA'' (PInt 1) ''onEvent'' None) =
       Inr (''serviceA'', ''1'', ''onEvent'', None)"
  using topic_roundtrip [of "''serviceA''" "PInt 1" "''onEvent''" "Some ''nodeY''"]
    topic_roundtrip [of "''serviceA''" "PInt 1" "''onEvent''" None]
  by (simp add: str_int_1)

section \<open>Publishing\<close>

text \<open>
  C8: every call of \<open>publish\<close> publishes the serialised payload to the topic made of
  service, version and endpoint joined by slashes, whatever \<open>xpublish\<close> does: its
  publishes, and the exception it may end with, come after the broadcast.
\<close>

theorem publish_broadcasts:
  "publish get_subscribers dumps rnd service version endpoint payload =
     ((service @ ''/'' @ py_str version @ ''/'' @ endpoint, dumps payload)
        # fst (xpublish get_subscribers dumps rnd service version endpoint payload),
      snd (xpublish get_subscribers dumps rnd service version endpoint payload))"
  by (simp add: publish_def get_pubsub_key_def split_beta)

theorem publish_broadcasts_witness:
  "hd (fst (publish (\<lambda>s v e. []) (\<lambda>p. p) (\<lambda>k. 0) ''serviceA'' (PInt 1) ''onEvent'' ''x=1'')) =
     (''serviceA/1/onEvent'', ''x=1'')"
  using publish_broadcasts [of "\<lambda>s v e. []" "\<lambda>p. p" "\<lambda>k. 0" "''serviceA''" "PInt 1" "''onEvent''" "''x=1''"]
  by (simp add: str_int_1)


section \<open>Subscription messages\<close>

lemma parse_topic_bad_length:
  "length (split CHR ''/'' topic) \<notin> {3, 4} \<Longrightarrow> parse_topic topic = Inl ValueError"
  by (auto simp: parse_topic_def Let_def split: if_splits list.splits)

text \<open>
  C6, as stated, fails: a message for a service that no registered client has raises
  IndexError, and a topic of two segments raises ValueError.
\<close>

theorem subscription_handler_raises:
  "subscription_handler (Some [clientA]) (\<lambda>s. Inr s) ''serviceB/1/onEvent'' ''x=1'' = Inl IndexError
   \<and> subscription_handler (Some [clientA]) (\<lambda>s. Inr s) ''serviceA/1'' ''x=1'' = Inl ValueError"
  by (simp add: subscription_handler_def parse_topic_def clientA_def)

text \<open>
  C6, amended: for a message whose topic does not split into three or four segments the
  subscription handler raises ValueError, and for a message whose topic names a service
  and version (as a string) that no registered client has, it raises IndexError; the
  exception reaches the caller of the handler.
\<close>

theorem subscription_handler_lookup_failure:
  "(length (split CHR ''/'' topic) \<notin> {3, 4} \<longrightarrow>
      subscription_handler clients loads topic payload = Inl ValueError)
   \<and> (parse_topic topic = Inr (service, version, endpoint, node_id)
       \<and> (\<forall>sc \<in> set cs. c_name sc \<noteq> service \<or> c_version sc \<noteq> PStr version) \<longrightarrow>
      subscription_handler (Some cs) loads topic payload = Inl IndexError)"
proof (intro conjI impI)
  assume "length (split CHR ''/'' topic) \<notin> {3, 4}"
  then have "parse_topic topic = Inl ValueError" by (rule parse_topic_bad_length)
  then show "subscription_handler clients loads topic payload = Inl ValueError"
    by (simp add: subscription_handler_def)
next
  assume a: "parse_topic topic = Inr (service, version, endpoint, node_id)
       \<and> (\<forall>sc \<in> set cs. c_name sc \<noteq> service \<or> c_version sc \<noteq> PStr version)"
  then have "filter (\<lambda>sc. c_name sc = service \<and> c_version sc = PStr version) cs = []"
    by (auto simp: filter_empty_conv)
  with a show "subscription_handler (Some cs) loads topic payload = Inl IndexError"
    by (simp add: subscription_handler_def)
qed

theorem subscription_handler_lookup_failure_witness:
  "length (split CHR ''/'' ''serviceA/1'') \<notin> {3, 4}
   \<and> subscription_handler (Some [clientA]) (\<lambda>s. Inr s) ''serviceA/1'' ''x=1'' = Inl ValueError
   \<and> parse_topic ''serviceA/2/onEvent'' = Inr (''serviceA'', ''2'', ''onEvent'', None)
   \<and> c_version clientA \<noteq> PStr ''2''
   \<and> subscription_handler (Some [clientA]) (\<lambda>s. Inr s) ''serviceA/2/onEvent'' ''x=1'' = Inl IndexError"
  using subscription_handler_lookup_failure
     [where topic = "''serviceA/1''" and clients = "Some [clientA]" and loads = "\<lambda>s. Inr s"
        and payload = "''x=1''" and service = "''serviceA''" and version = "''2''"
        and endpoint = "''onEvent''" and node_id = None and cs = "[clientA]"]
    subscription_handler_lookup_failure
     [where topic = "''serviceA/2/onEvent''" and clients = "Some [clientA]" and loads = "\<lambda>s. Inr s"
        and payload = "''x=1''" and service = "''serviceA''" and version = "''2''"
        and endpoint = "''onEvent''" and node_id = None and cs = "[clientA]"]
  by (simp add: parse_topic_def clientA_def)

section \<open>Sending requests\<close>

text \<open>
  C4, as stated, fails: the registry resolves the address of the packet to nodeY, the
  connection table has no entry for nodeY, and the attempt raises ClientNotFoundError.
\<close>

theorem resolved_without_connection_not_found:
  "get_node_id_for_packet bus0 packet0 = Inr (Some ''nodeY'')
   \<and> fst (request_sender_body bus0 packet0) = Inl ClientNotFoundError"
  by (simp add: request_sender_body_def get_node_id_for_packet_def bus0_def packet0_def
      registry0_def TCP_def)

text \<open>
  C4, amended: within one attempt on a packet that carries name, version and entity, the
  request sender raises ClientNotFoundError exactly when no node id is resolved, or the
  resolved node id is empty, or the connection table has no entry for it; it raises
  ClientDisconnected exactly when a non-empty node id is resolved, the table has a
  connection for it and that connection is not connected.
\<close>

theorem request_sender_body_errors:
  assumes "get_node_id_for_packet bus packet = Inr node_id"
  shows "(fst (request_sender_body bus packet) = Inl ClientNotFoundError \<longleftrightarrow>
            node_id = None \<or> node_id = Some [] \<or>
            (\<exists>n. node_id = Some n \<and> client_protocols bus n = None))
       \<and> (fst (request_sender_body bus packet) = Inl ClientDisconnected \<longleftrightarrow>
            (\<exists>n p. node_id = Some n \<and> n \<noteq> [] \<and> client_protocols bus n = Some p
                   \<and> \<not> is_connected p))"
  using assms by (auto simp: request_sender_body_def Let_def split: option.splits)

theorem request_sender_body_errors_witness:
  "get_node_id_for_packet
     (bus0\<lparr>client_protocols := [''nodeY'' \<mapsto> protocol0\<lparr>is_connected := False\<rparr>]\<rparr>) packet0 =
     Inr (Some ''nodeY'')
   \<and> fst (request_sender_body
       (bus0\<lparr>client_protocols := [''nodeY'' \<mapsto> protocol0\<lparr>is_connected := False\<rparr>]\<rparr>) packet0) =
     Inl ClientDisconnected"
  using request_sender_body_errors
    [of "bus0\<lparr>client_protocols := [''nodeY'' \<mapsto> protocol0\<lparr>is_connected := False\<rparr>]\<rparr>" packet0
        "Some ''nodeY''"]
  by (simp add: get_node_id_for_packet_def bus0_def packet0_def registry0_def TCP_def
      protocol0_def)

lemma attempt_state_shift:
  "attempt_state body between made s (Suc i) =
     attempt_state body between (Suc made) (between (Suc made) (snd (body s))) i"
  by (induction i) simp_all

text \<open>
  The retry with a predicate that retries for every exception: it makes at least one and
  at most \<open>left\<close> attempts, each of them a run of the body on the state of that attempt,
  and ends in the state the last run left; it sleeps \<open>d\<close>, \<open>d * m\<close>, \<open>d * m\<^sup>2\<close>, ...
  between them, every attempt but the last has failed, and it ends with the result of the
  first attempt that did not fail, or, after \<open>left\<close> failed attempts, with the terminal
  failure.
\<close>

lemma retry_all:
  "0 < left \<Longrightarrow>
   retry left m d srr (\<lambda>e. True) body between made s = (res, tries, delays, s') \<Longrightarrow>
     tries \<noteq> [] \<and> length tries \<le> left
     \<and> (\<forall>i < length tries. tries ! i = fst (body (attempt_state body between made s i)))
     \<and> s' = snd (body (attempt_state body between made s (length tries - 1)))
     \<and> delays = map (\<lambda>i. d * m ^ i) [0..<length tries - 1]
     \<and> (\<forall>r \<in> set (butlast tries). failed srr r)
     \<and> (case res of
           Inl e \<Rightarrow> e = RetriesExhausted \<and> length tries = left \<and> failed srr (last tries)
         | Inr r \<Rightarrow> \<not> srr r \<and> last tries = Inr r)"
proof (induction left arbitrary: d made s res tries delays s')
  case 0
  then show ?case by simp
next
  case (Suc left)
  obtain r1 s1 where b: "body s = (r1, s1)" by (cases "body s")
  show ?case
  proof (cases "failed srr r1")
    case False
    with Suc.prems b show ?thesis
      by (auto simp: failed_def split: sum.splits)
  next
    case True
    note again = this
    show ?thesis
    proof (cases "left = 0")
      case True
      with Suc.prems b again show ?thesis
        by (auto simp: failed_def split: sum.splits)
    next
      case False
      obtain res2 tries2 delays2 s2 where
        r: "retry left m (d * m) srr (\<lambda>e. True) body between (Suc made) (between (Suc made) s1) =
              (res2, tries2, delays2, s2)"
        by (metis prod_cases4)
      from False have pos: "0 < left" by simp
      note ih = Suc.IH [OF pos r]
      from Suc.prems b again False r
      have eqs: "res = res2" "tries = r1 # tries2" "delays = d # delays2" "s' = s2"
        by (auto simp: failed_def split: sum.splits)
      have sh: "\<And>i. attempt_state body between made s (Suc i) =
                  attempt_state body between (Suc made) (between (Suc made) s1) i"
        using attempt_state_shift [of body between made s] b by simp
      have d2: "delays2 = map (\<lambda>i. d * m * m ^ i) [0..<length tries2 - 1]" using ih by simp
      have len: "length tries - 1 = Suc (length tries2 - 1)" using ih eqs by (cases tries2) auto
      have "d # delays2 = map (\<lambda>i. d * m ^ i) [0..<Suc (length tries2 - 1)]"
        unfolding d2 by (simp add: map_upt_Suc ac_simps del: upt_Suc)
      then have dl: "delays = map (\<lambda>i. d * m ^ i) [0..<length tries - 1]"
        unfolding len eqs(3) .
      have tr: "\<forall>i < length tries. tries ! i = fst (body (attempt_state body between made s i))"
      proof (intro allI impI)
        fix i assume i: "i < length tries"
        show "tries ! i = fst (body (attempt_state body between made s i))"
        proof (cases i)
          case 0
          then show ?thesis using eqs b by simp
        next
          case (Suc j)
          with i eqs have "j < length tries2" by simp
          with ih have "tries2 ! j =
              fst (body (attempt_state body between (Suc made) (between (Suc made) s1) j))"
            by blast
          then show ?thesis unfolding Suc sh using eqs by simp
        qed
      qed
      have st: "s' = snd (body (attempt_state body between made s (length tries - 1)))"
        unfolding len sh using ih eqs by simp
      have bl: "\<forall>r \<in> set (butlast tries). failed srr r" using ih eqs again by auto
      have fin: "(case res of
           Inl e \<Rightarrow> e = RetriesExhausted \<and> length tries = Suc left \<and> failed srr (last tries)
         | Inr r \<Rightarrow> \<not> srr r \<and> last tries = Inr r)"
        using ih eqs by (auto split: sum.splits)
      have ne: "tries \<noteq> []" "length tries \<le> Suc left" using eqs ih by simp_all
      from ne tr st dl bl fin show ?thesis by blast
    qed
  qed
qed

text \<open>
  C3: the request sender repeats the whole resolve-and-send step whenever it raises or
  returns a falsy result.  It makes between one and five attempts; each attempt is a run
  of the resolve-and-send step, the first on the bus as given and each later one on the
  bus that the attempt before it and the delay left, and the bus at the end is the one the
  last run left; the delays between the attempts are the first delay times 1, 2, 4 and 8;
  every attempt before the last has failed; a failure is surfaced only as the terminal
  exception and only after five failed attempts, and any other end is the success of the
  last attempt.
\<close>

theorem request_sender_retries:
  assumes "request_sender delay between bus packet = (res, tries, delays, bus')"
  shows "1 \<le> length tries \<and> length tries \<le> 5
     \<and> (\<forall>i < length tries.
          tries ! i = fst (request_sender_body (attempt_bus between packet bus i) packet))
     \<and> bus' = snd (request_sender_body (attempt_bus between packet bus (length tries - 1)) packet)
     \<and> delays = map (\<lambda>i. delay * 2 ^ i) [0..<length tries - 1]
     \<and> (\<forall>r \<in> set (butlast tries). r \<noteq> Inr True)
     \<and> (case res of
           Inl e \<Rightarrow> e = RetriesExhausted \<and> length tries = 5 \<and> last tries \<noteq> Inr True
         | Inr r \<Rightarrow> r \<and> last tries = Inr True)"
proof -
  have pos: "0 < (5::nat)" by simp
  note h = retry_all [OF pos assms [unfolded request_sender_def], folded attempt_bus_def]
  have f: "\<And>r. failed (\<lambda>x. \<not> x) r \<Longrightarrow> r \<noteq> Inr True" by (auto simp: failed_def)
  from h have "tries \<noteq> []" by simp
  then have a: "1 \<le> length tries" by (cases tries) auto
  from h f have b: "\<forall>r \<in> set (butlast tries). r \<noteq> Inr True" by blast
  from h f have c: "(case res of
           Inl e \<Rightarrow> e = RetriesExhausted \<and> length tries = 5 \<and> last tries \<noteq> Inr True
         | Inr r \<Rightarrow> r \<and> last tries = Inr True)" by (auto split: sum.splits)
  from a b c h show ?thesis by blast
qed

theorem request_sender_retries_witness:
  "request_sender 1 (\<lambda>k b. b) bus0 packet0 =
     (Inl RetriesExhausted, replicate 5 (Inl ClientNotFoundError), [1, 2, 4, 8],
      bus0\<lparr>logger := replicate 5 (LogError ''Client Not found'')\<rparr>)
   \<and> request_sender 1 connectY bus0 packet0 =
     (Inr True, [Inl ClientNotFoundError, Inl ClientNotFoundError, Inr True], [1, 2],
      bus0\<lparr>logger := replicate 2 (LogError ''Client Not found''),
           client_protocols := [''nodeY'' \<mapsto> protocol0\<lparr>sent := [packet0(''to'' \<mapsto> PStr ''nodeY'')]\<rparr>]\<rparr>)
   \<and> bus0\<lparr>logger := replicate 5 (LogError ''Client Not found'')\<rparr> =
       snd (request_sender_body (attempt_bus (\<lambda>k b. b) packet0 bus0 4) packet0)
   \<and> snd (request_sender_body (attempt_bus connectY packet0 bus0 2) packet0) =
       bus0\<lparr>logger := replicate 2 (LogError ''Client Not found''),
           client_protocols := [''nodeY'' \<mapsto> protocol0\<lparr>sent := [packet0(''to'' \<mapsto> PStr ''nodeY'')]\<rparr>]\<rparr>"
proof -
  have e: "request_sender 1 (\<lambda>k b. b) bus0 packet0 =
     (Inl RetriesExhausted, replicate 5 (Inl ClientNotFoundError), [1, 2, 4, 8],
      bus0\<lparr>logger := replicate 5 (LogError ''Client Not found'')\<rparr>)"
    by (simp add: request_sender_def eval_nat_numeral request_sender_body_def
        get_node_id_for_packet_def bus0_def packet0_def registry0_def TCP_def)
  have e2: "request_sender 1 connectY bus0 packet0 =
     (Inr True, [Inl ClientNotFoundError, Inl ClientNotFoundError, Inr True], [1, 2],
      bus0\<lparr>logger := replicate 2 (LogError ''Client Not found''),
           client_protocols := [''nodeY'' \<mapsto> protocol0\<lparr>sent := [packet0(''to'' \<mapsto> PStr ''nodeY'')]\<rparr>]\<rparr>)"
    by (simp add: request_sender_def eval_nat_numeral request_sender_body_def connectY_def
        get_node_id_for_packet_def bus0_def packet0_def registry0_def TCP_def protocol0_def)
  have "bus0\<lparr>logger := replicate 5 (LogError ''Client Not found'')\<rparr> =
       snd (request_sender_body (attempt_bus (\<lambda>k b. b) packet0 bus0 4) packet0)"
    using request_sender_retries [OF e] by (simp add: eval_nat_numeral)
  moreover have "snd (request_sender_body (attempt_bus connectY packet0 bus0 2) packet0) =
       bus0\<lparr>logger := replicate 2 (LogError ''Client Not found''),
           client_protocols := [''nodeY'' \<mapsto> protocol0\<lparr>sent := [packet0(''to'' \<mapsto> PStr ''nodeY'')]\<rparr>]\<rparr>"
    using request_sender_retries [OF e2] by (simp add: eval_nat_numeral)
  ultimately show ?thesis using e e2 by blast
qed

lemma retry_first_success:
  "body s = (Inr r, s') \<Longrightarrow> \<not> srr r \<Longrightarrow>
   retry (Suc left) m d srr sre body between made s = (Inr r, [Inr r], [], s')"
  by simp

lemma getattr_request_sender: "getattr_TCPBus ''_request_sender'' = Inr ''_request_sender''"
  by (simp add: getattr_TCPBus_def TCPBus_attributes_def)

text \<open>
  C7: for a request packet whose address resolves to a node id with a connected
  connection, \<open>send\<close> makes one attempt and sleeps no delay, hands exactly one packet to
  that connection, with \<open>from\<close> the id of the local host and \<open>to\<close> the resolved node id,
  leaves every other connection as it is, and returns success.
\<close>

theorem send_connected:
  assumes "packet ''type'' = Some (PStr ''request'')"
    and "packet ''name'' = Some service" and "packet ''version'' = Some version"
    and "packet ''entity'' = Some entity"
    and "resolve (registry_client bus) service version entity TCP = Some (host, port, n, t)"
    and "n \<noteq> []" and "client_protocols bus n = Some p" and "is_connected p"
  shows "send delay between bus packet =
           Inr (Inr True, [Inr True], [],
                bus\<lparr>client_protocols := (client_protocols bus)
                  (n \<mapsto> p\<lparr>sent := sent p @
                     [packet(''from'' \<mapsto> PStr (host_id bus), ''to'' \<mapsto> PStr n)]\<rparr>)\<rparr>)"
proof -
  let ?pk = "packet(''from'' \<mapsto> PStr (host_id bus))"
  have node: "get_node_id_for_packet bus ?pk = Inr (Some n)"
    using assms by (simp add: get_node_id_for_packet_def)
  have body: "request_sender_body bus ?pk =
      (Inr True, bus\<lparr>client_protocols := (client_protocols bus)
                  (n \<mapsto> p\<lparr>sent := sent p @ [?pk(''to'' \<mapsto> PStr n)]\<rparr>)\<rparr>)"
    using assms node by (simp add: request_sender_body_def)
  have five: "(5::nat) = Suc 4" by simp
  have "request_sender delay between bus ?pk =
      (Inr True, [Inr True], [], bus\<lparr>client_protocols := (client_protocols bus)
                  (n \<mapsto> p\<lparr>sent := sent p @ [?pk(''to'' \<mapsto> PStr n)]\<rparr>)\<rparr>)"
    unfolding request_sender_def five by (rule retry_first_success) (simp_all add: body)
  then show ?thesis
    using assms(1) by (simp add: send_def getattr_request_sender)
qed

theorem send_connected_witness:
  "send 1 (\<lambda>k b. b) (bus0\<lparr>client_protocols := [''nodeY'' \<mapsto> protocol0]\<rparr>) packet0 =
     Inr (Inr True, [Inr True], [],
          bus0\<lparr>client_protocols := [''nodeY'' \<mapsto>
             protocol0\<lparr>sent := [packet0(''from'' \<mapsto> PStr ''nodeL'', ''to'' \<mapsto> PStr ''nodeY'')]\<rparr>]\<rparr>)"
  using send_connected
    [of packet0 "PStr ''serviceA''" "PInt 1" "PStr ''e1''"
        "bus0\<lparr>client_protocols := [''nodeY'' \<mapsto> protocol0]\<rparr>"
        "''10.0.0.2''" 4501 "''nodeY''" "''tcp''" protocol0 1 "\<lambda>k b. b"]
  by (simp add: bus0_def packet0_def registry0_def protocol0_def TCP_def)

section \<open>Routing\<close>

text \<open>The only attribute of the bus whose name has the shape of a receiver.\<close>

lemma receiver_name:
  assumes "''_'' @ t @ ''_receiver'' \<in> set TCPBus_attributes"
  shows "t = ''request''"
proof -
  have "\<forall>a \<in> set TCPBus_attributes.
          rev a = rev (''_'' @ t @ ''_receiver'') \<longrightarrow> a = ''_request_receiver''"
    by (simp add: TCPBus_attributes_def)
  with assms have "''_'' @ t @ ''_receiver'' = ''_request_receiver''" by blast
  then have "t @ ''_receiver'' = ''request'' @ ''_receiver''" by simp
  then show ?thesis by (simp only: append_same_eq)
qed

text \<open>
  C10: for an inbound packet whose type is a string other than ping, pong and request,
  on a bus with a hosted service: when the service says the packet is for it, \<open>receive\<close>
  raises AttributeError and logs nothing; only when the address does not match is the
  packet logged and dropped.
\<close>

theorem receive_unknown_type:
  assumes "packet ''type'' = Some (PStr t)"
    and "t \<noteq> ''ping''" and "t \<noteq> ''pong''" and "t \<noteq> ''request''"
    and "tcp_host bus = Some host"
    and "packet ''name'' = Some name" and "packet ''version'' = Some version"
  shows "receive bus packet =
           (if is_for_me host name version then (Inl AttributeError, bus)
            else (Inr Dropped,
                  bus\<lparr>logger := logger bus @ [LogWarn ''wrongly routed packet: '']\<rparr>))"
proof -
  have "''_'' @ t @ ''_receiver'' \<notin> set TCPBus_attributes"
    using receiver_name [of t] assms(4) by blast
  then have "getattr_TCPBus (''_'' @ t @ ''_receiver'') = Inl AttributeError"
    by (simp add: getattr_TCPBus_def)
  with assms show ?thesis by (simp add: receive_def)
qed

theorem receive_unknown_type_witness:
  "receive bus0 (packet0(''type'' \<mapsto> PStr ''event'', ''name'' \<mapsto> PStr ''serviceL'')) =
     (Inl AttributeError, bus0)
   \<and> fst (receive bus0 (packet0(''type'' \<mapsto> PStr ''event''))) = Inr Dropped"
  using receive_unknown_type
      [of "packet0(''type'' \<mapsto> PStr ''event'', ''name'' \<mapsto> PStr ''serviceL'')" "''event''" bus0
          host0 "PStr ''serviceL''" "PInt 1"]
    receive_unknown_type
      [of "packet0(''type'' \<mapsto> PStr ''event'')" "''event''" bus0 host0 "PStr ''serviceA''" "PInt 1"]
  by (simp add: bus0_def packet0_def host0_def)

section \<open>Connections\<close>

lemma connect_addresses_launched:
  "fst (connect_addresses bus sc addrs) = None
   \<and> launched (snd (connect_addresses bus sc addrs)) = launched bus @ tcp_tasks sc addrs
   \<and> registry_client (snd (connect_addresses bus sc addrs)) = registry_client bus"
proof (induction addrs arbitrary: bus)
  case Nil
  show ?case by (simp add: tcp_tasks_def)
next
  case (Cons a addrs)
  obtain host port node_id service_type where a: "a = (host, port, node_id, service_type)"
    by (cases a) auto
  show ?case
  proof (cases "service_type = ''tcp''")
    case False
    with a Cons.IH [of bus] show ?thesis by (simp add: tcp_tasks_def)
  next
    case True
    let ?b = "bus\<lparr>node_clients := (node_clients bus)(node_id \<mapsto> sc),
             launched := launched bus @
               [\<lparr>a_host = host, a_port = port, a_node_id = node_id, a_service_type = ''tcp'',
                 a_client = sc, a_callback = True\<rparr>]\<rparr>"
    have step: "connect_addresses bus sc (a # addrs) = connect_addresses ?b sc addrs"
      using a True by (simp add: connect_to_client_def)
    show ?thesis
      unfolding step using Cons.IH [of ?b] a True by (simp add: tcp_tasks_def)
  qed
qed

lemma connect_clients_launched:
  "fst (connect_clients bus scs) = None
   \<and> launched (snd (connect_clients bus scs)) = launched bus @ all_tasks (registry_client bus) scs
   \<and> registry_client (snd (connect_clients bus scs)) = registry_client bus"
proof (induction scs arbitrary: bus)
  case Nil
  show ?case by (simp add: all_tasks_def)
next
  case (Cons sc scs)
  let ?addrs = "get_all_addresses (registry_client bus) (c_name sc) (c_version sc)"
  let ?r = "connect_addresses bus sc ?addrs"
  have "fst ?r = None"
    using connect_addresses_launched [of bus sc ?addrs] by simp
  then obtain b1 where r: "?r = (None, b1)" by (cases ?r) auto
  have b1: "launched b1 = launched bus @ tcp_tasks sc ?addrs"
    "registry_client b1 = registry_client bus"
    using connect_addresses_launched [of bus sc ?addrs] r by simp_all
  have step: "connect_clients bus (sc # scs) = connect_clients b1 scs"
    using r by simp
  show ?case unfolding step using Cons.IH [of b1] b1 by (simp add: all_tasks_def)
qed

lemma run_done_callbacks_append:
  "run_done_callbacks bus (before @ after) =
     run_done_callbacks (run_done_callbacks bus before) after"
  by (induction before arbitrary: bus) auto

lemma run_done_callbacks_failed:
  "run_done_callbacks bus ((task, Failed) # evs) = run_done_callbacks bus evs"
  by (simp add: service_client_connection_callback_def)

text \<open>
  C5: \<open>_create_service_clients\<close> raises nothing and starts a connection task, with its
  callback, for every tcp replica that the registry lists for every service client, all of
  them before any can complete.  Whatever the order in which the tasks complete, a task
  that fails leaves the bus as if it had not completed at all, so the others are handled
  as without it, and a task that succeeds has its connection entered under its node id.
\<close>

theorem create_service_clients_independent:
  "fst (create_service_clients bus) = None
   \<and> launched (snd (create_service_clients bus)) =
       launched bus @ all_tasks (registry_client bus) (service_clients bus)
   \<and> run_done_callbacks b (before @ (task, Failed) # after) = run_done_callbacks b (before @ after)
   \<and> (a_callback task \<longrightarrow>
       client_protocols (run_done_callbacks b (evs @ [(task, Connected p)])) (a_node_id task) =
         Some p)"
proof (intro conjI impI)
  show "fst (create_service_clients bus) = None"
    using connect_clients_launched [of bus "service_clients bus"]
    by (simp add: create_service_clients_def)
  show "launched (snd (create_service_clients bus)) =
       launched bus @ all_tasks (registry_client bus) (service_clients bus)"
    using connect_clients_launched [of bus "service_clients bus"]
    by (simp add: create_service_clients_def)
  show "run_done_callbacks b (before @ (task, Failed) # after) = run_done_callbacks b (before @ after)"
    by (simp only: run_done_callbacks_append run_done_callbacks_failed)
next
  assume "a_callback task"
  then show "client_protocols (run_done_callbacks b (evs @ [(task, Connected p)])) (a_node_id task) =
      Some p"
    by (simp add: run_done_callbacks_append service_client_connection_callback_def)
qed

theorem create_service_clients_independent_witness:
  "launched (snd (create_service_clients bus0)) = [taskY, taskZ]
   \<and> a_callback taskZ
   \<and> client_protocols (run_done_callbacks (snd (create_service_clients bus0))
        ([(taskY, Failed)] @ [(taskZ, Connected protocol0)])) ''nodeZ'' = Some protocol0
   \<and> run_done_callbacks (snd (create_service_clients bus0))
        ([] @ (taskY, Failed) # [(taskZ, Connected protocol0)]) =
       run_done_callbacks (snd (create_service_clients bus0)) ([] @ [(taskZ, Connected protocol0)])"
  using create_service_clients_independent
    [where bus = bus0 and b = "snd (create_service_clients bus0)" and before = "[]"
       and task = taskY and after = "[(taskZ, Connected protocol0)]" and evs = "[(taskY, Failed)]"
       and p = protocol0]
   create_service_clients_independent
    [where bus = bus0 and b = "snd (create_service_clients bus0)" and before = "[]"
       and task = taskZ and after = "[]" and evs = "[(taskY, Failed)]" and p = protocol0]
  by (simp add: all_tasks_def tcp_tasks_def bus0_def registry0_def clientA_def taskY_def taskZ_def)

section \<open>Ping timeouts\<close>

text \<open>
  C2, as stated, fails: after \<open>handle_ping_timeout\<close> for nodeY the connection table still
  holds the connection of nodeY.
\<close>

theorem ping_timeout_keeps_connection:
  "get_for_node (registry_client bus1) ''nodeY'' = None
   \<and> client_protocols bus1 ''nodeY'' = Some protocol0
   \<and> client_protocols (snd (handle_ping_timeout bus1 ''nodeY'')) ''nodeY'' = Some protocol0"
  by (simp add: handle_ping_timeout_def bus1_def bus0_def registry0_def)

text \<open>
  When the registry still reports an address, the call of \<open>_connect_to_client\<close> with four
  arguments raises TypeError and no connection task is started.
\<close>

lemma ping_timeout_reconnect_raises:
  "fst (handle_ping_timeout bus2 ''nodeY'') = Some TypeError
   \<and> launched (snd (handle_ping_timeout bus2 ''nodeY'')) = []"
  by (simp add: handle_ping_timeout_def bus2_def bus1_def bus0_def registry0_def
      connect_to_client_def)

text \<open>
  C2, amended: \<open>handle_ping_timeout\<close> removes the entry of the node id from the table of
  pingers and leaves the table of connections as it is; if the registry no longer knows
  the replica, it raises nothing and starts no connection task.
\<close>

theorem handle_ping_timeout_tables:
  "pingers (snd (handle_ping_timeout bus node_id)) = (pingers bus)(node_id := None)
   \<and> client_protocols (snd (handle_ping_timeout bus node_id)) = client_protocols bus
   \<and> (get_for_node (registry_client bus) node_id = None \<longrightarrow>
        fst (handle_ping_timeout bus node_id) = None
        \<and> launched (snd (handle_ping_timeout bus node_id)) = launched bus)"
  by (auto simp: handle_ping_timeout_def Let_def connect_to_client_def split: option.splits)

theorem handle_ping_timeout_tables_witness:
  "get_for_node (registry_client bus1) ''nodeY'' = None
   \<and> pingers (snd (handle_ping_timeout bus1 ''nodeY'')) ''nodeY'' = None
   \<and> client_protocols (snd (handle_ping_timeout bus1 ''nodeY'')) = [''nodeY'' \<mapsto> protocol0]
   \<and> fst (handle_ping_timeout bus1 ''nodeY'') = None
   \<and> launched (snd (handle_ping_timeout bus1 ''nodeY'')) = []"
  using handle_ping_timeout_tables [of bus1 "''nodeY''"]
  by (simp add: bus1_def bus0_def registry0_def)

end
